theory Spec2Isabelle
  imports Complex_Main "HOL-Library.AList" "HOL-Library.Multiset"
begin

section \<open>Python values and the library operations the source calls\<close>

text \<open>
  The values the pipeline handles are the ones \<^verbatim>\<open>json.loads\<close> produces: None, booleans,
  integers, floats, strings, lists and dictionaries with string keys. A dictionary is an
  association list in insertion order. A float is modelled by the rational it denotes:
  comparison is exact on these, rounding of binary floating point is not modelled.
\<close>

datatype pyval =
    PNone
  | PBool bool
  | PInt int
  | PFloat rat
  | PStr string
  | PList "pyval list"
  | PDict "(string \<times> pyval) list"

datatype error =
    KeyError
  | TypeError
  | AttributeError
  | ValueError
  | JSONDecodeError
  | APIError string

text \<open>
  The functions of the Python standard library that the source calls and that are not
  part of the repository are parameters of the model: \<^verbatim>\<open>json.loads\<close> (None when it raises
  JSONDecodeError), \<^verbatim>\<open>json.dumps\<close> with and without \<^verbatim>\<open>indent=2\<close>, \<^verbatim>\<open>str()\<close> of a value that is
  not a string (as an f-string formats it), and \<^verbatim>\<open>float()\<close> of a string.
\<close>

record pylib =
  json_loads :: "string \<Rightarrow> pyval option"
  json_dumps :: "pyval \<Rightarrow> string"
  json_dumps_indent :: "pyval \<Rightarrow> string"
  str_of :: "pyval \<Rightarrow> string"
  float_of_str :: "string \<Rightarrow> rat option"

abbreviation NL :: char where
  "NL \<equiv> CHR 0x0A"

text \<open>Truthiness, as \<^verbatim>\<open>if x:\<close> tests it.\<close>

fun py_truthy :: "pyval \<Rightarrow> bool" where
  "py_truthy PNone = False"
| "py_truthy (PBool b) = b"
| "py_truthy (PInt i) = (i \<noteq> 0)"
| "py_truthy (PFloat r) = (r \<noteq> 0)"
| "py_truthy (PStr s) = (s \<noteq> [])"
| "py_truthy (PList xs) = (xs \<noteq> [])"
| "py_truthy (PDict kvs) = (kvs \<noteq> [])"

text \<open>\<^verbatim>\<open>x.get(k, d)\<close>: only a dictionary has the method.\<close>

fun py_get :: "pyval \<Rightarrow> string \<Rightarrow> pyval \<Rightarrow> error + pyval" where
  "py_get (PDict kvs) k d = Inr (case map_of kvs k of Some v \<Rightarrow> v | None \<Rightarrow> d)"
| "py_get _ k d = Inl AttributeError"

text \<open>\<^verbatim>\<open>x['k']\<close> with a string key: KeyError on a dictionary without the key, TypeError on
  every other value.\<close>

fun py_getitem :: "pyval \<Rightarrow> string \<Rightarrow> error + pyval" where
  "py_getitem (PDict kvs) k = (case map_of kvs k of Some v \<Rightarrow> Inr v | None \<Rightarrow> Inl KeyError)"
| "py_getitem _ k = Inl TypeError"

text \<open>\<^verbatim>\<open>for x in v\<close>: a list gives its elements, a string its characters, a dictionary its
  keys; nothing else is iterable.\<close>

fun py_iter :: "pyval \<Rightarrow> error + pyval list" where
  "py_iter (PList xs) = Inr xs"
| "py_iter (PStr s) = Inr (map (\<lambda>c. PStr [c]) s)"
| "py_iter (PDict kvs) = Inr (map (\<lambda>kv. PStr (fst kv)) kvs)"
| "py_iter _ = Inl TypeError"

text \<open>\<^verbatim>\<open>f"{v}"\<close>: a string is inserted as it is.\<close>

definition py_format :: "pylib \<Rightarrow> pyval \<Rightarrow> string" where
  "py_format lib v = (case v of PStr s \<Rightarrow> s | _ \<Rightarrow> str_of lib v)"

text \<open>\<^verbatim>\<open>float(v)\<close>.\<close>

fun py_float :: "pylib \<Rightarrow> pyval \<Rightarrow> error + rat" where
  "py_float lib (PInt i) = Inr (of_int i)"
| "py_float lib (PFloat r) = Inr r"
| "py_float lib (PBool b) = Inr (if b then 1 else 0)"
| "py_float lib (PStr s) = (case float_of_str lib s of Some r \<Rightarrow> Inr r | None \<Rightarrow> Inl ValueError)"
| "py_float lib _ = Inl TypeError"

text \<open>\<^verbatim>\<open>v >= r\<close> for a float literal \<open>r\<close>: defined on numbers (a boolean is 0 or 1).\<close>

fun py_ge_float :: "pyval \<Rightarrow> rat \<Rightarrow> error + bool" where
  "py_ge_float (PInt i) r = Inr (of_int i \<ge> r)"
| "py_ge_float (PFloat q) r = Inr (q \<ge> r)"
| "py_ge_float (PBool b) r = Inr ((if b then 1 else 0) \<ge> r)"
| "py_ge_float _ r = Inl TypeError"

text \<open>\<^verbatim>\<open>s.split("\n")\<close>, \<^verbatim>\<open>sep.join(xs)\<close> and \<^verbatim>\<open>s.strip()\<close>.\<close>

fun split_on :: "char \<Rightarrow> string \<Rightarrow> string list" where
  "split_on c [] = [[]]"
| "split_on c (x # xs) =
     (if x = c then [] # split_on c xs
      else (case split_on c xs of y # ys \<Rightarrow> (x # y) # ys | [] \<Rightarrow> [[x]]))"

fun py_join :: "string \<Rightarrow> string list \<Rightarrow> string" where
  "py_join sep [] = []"
| "py_join sep [x] = x"
| "py_join sep (x # y # ys) = x @ sep @ py_join sep (y # ys)"

definition is_space :: "char \<Rightarrow> bool" where
  "is_space c = (c \<in> set [CHR 0x09, CHR 0x0A, CHR 0x0B, CHR 0x0C, CHR 0x0D,
                           CHR 0x1C, CHR 0x1D, CHR 0x1E, CHR 0x1F, CHR 0x20, CHR 0x85, CHR 0xA0])"

definition py_strip :: "string \<Rightarrow> string" where
  "py_strip s = rev (dropWhile is_space (rev (dropWhile is_space s)))"

text \<open>The error monad of a block of statements: the first exception ends the block.\<close>

definition ebind :: "error + 'a \<Rightarrow> ('a \<Rightarrow> error + 'b) \<Rightarrow> error + 'b" where
  "ebind m f = (case m of Inl e \<Rightarrow> Inl e | Inr x \<Rightarrow> f x)"

fun emap :: "('a \<Rightarrow> error + 'b) \<Rightarrow> 'a list \<Rightarrow> error + 'b list" where
  "emap f [] = Inr []"
| "emap f (x # xs) = ebind (f x) (\<lambda>y. ebind (emap f xs) (\<lambda>ys. Inr (y # ys)))"

section \<open>Job context and step cache\<close>

text \<open>
  The world of a run: the files by path, the outbound collaborator calls made so far
  (one entry per call of a client method, oldest first), and the records of
  \<^verbatim>\<open>logging.info\<close>, \<^verbatim>\<open>logging.warning\<close> and \<^verbatim>\<open>logging.error\<close> (debug records and prints
  are left out). Writing a file always succeeds in the model.
\<close>

datatype event =
    ResumeFound string
  | Resuming string
  | StepFailed string error
  | UsingPartial string
  | StageError string error
  | StepStart string
  | StepDone string
  | GeneratingMarkdown
  | WroteMarkdown string
  | PartialResults "string list"
  | Complete
  | ResultsStored string
  | RunError error

record world =
  files :: "string \<rightharpoonup> string"
  calls :: "string list"
  log :: "event list"

definition logging :: "event \<Rightarrow> world \<Rightarrow> world" where
  "logging ev w = w\<lparr>log := log w @ [ev]\<rparr>"

record job_manager =
  job_id :: string
  job_dir :: string

text \<open>\<^verbatim>\<open>os.path.join(a, b)\<close> on POSIX paths.\<close>

definition path_join :: "string \<Rightarrow> string \<Rightarrow> string" where
  "path_join a b =
     (if b \<noteq> [] \<and> hd b = CHR ''/'' then b
      else if a = [] \<or> last a = CHR ''/'' then a @ b
      else a @ ''/'' @ b)"

definition get_filepath :: "job_manager \<Rightarrow> string \<Rightarrow> string" where
  "get_filepath jm step_name = path_join (job_dir jm) (step_name @ ''.json'')"

text \<open>
  \<^verbatim>\<open>load_partial_result\<close>: None when there is no file; otherwise the file is parsed and
  \<^verbatim>\<open>data.get("content", "")\<close> returned.
\<close>

definition load_partial_result :: "pylib \<Rightarrow> job_manager \<Rightarrow> string \<Rightarrow> world \<Rightarrow> (error + pyval) \<times> world" where
  "load_partial_result lib jm step_name w =
     (case files w (get_filepath jm step_name) of
        None \<Rightarrow> (Inr PNone, w)
      | Some text \<Rightarrow>
          (let w1 = logging (ResumeFound step_name) w in
           case json_loads lib text of
             None \<Rightarrow> (Inl JSONDecodeError, w1)
           | Some data \<Rightarrow> (py_get data ''content'' (PStr ''''), w1)))"

definition save_partial_result :: "pylib \<Rightarrow> job_manager \<Rightarrow> string \<Rightarrow> string \<Rightarrow> world \<Rightarrow> world" where
  "save_partial_result lib jm step_name content w =
     w\<lparr>files := (files w)(get_filepath jm step_name \<mapsto>
          json_dumps_indent lib (PDict [(''content'', PStr content)]))\<rparr>"

section \<open>Failure policy\<close>

definition research_questions_fallback :: string where
  "research_questions_fallback =
     ''What are the current best practices for this use case?'' @ [NL] @
     ''What are common pitfalls to avoid?''"

definition deep_research_fallback :: pyval where
  "deep_research_fallback =
     PDict [(''content'', PStr ''Research unavailable due to API error. Please review manually.''),
            (''citations'', PList [])]"

definition visual_suggestions_fallback :: string where
  "visual_suggestions_fallback = ''Visual suggestions unavailable due to processing error.''"

definition handle_step_failure :: "pylib \<Rightarrow> job_manager \<Rightarrow> string \<Rightarrow> error \<Rightarrow> world \<Rightarrow> (error + pyval) \<times> world" where
  "handle_step_failure lib jm step_name err w =
     (let w1 = logging (StepFailed step_name err) w in
      case load_partial_result lib jm step_name w1 of
        (Inl e, w2) \<Rightarrow> (Inl e, w2)
      | (Inr partial_result, w2) \<Rightarrow>
          if py_truthy partial_result then (Inr partial_result, logging (UsingPartial step_name) w2)
          else if step_name = ''research_questions'' then (Inr (PStr research_questions_fallback), w2)
          else if step_name = ''deep_research'' then (Inr (PStr (json_dumps lib deep_research_fallback)), w2)
          else if step_name = ''visual_suggestions'' then (Inr (PStr visual_suggestions_fallback), w2)
          else if step_name \<in> set [''refined_draft'', ''final_use_case'', ''example_solution''] then (Inl err, w2)
          else (Inr PNone, w2))"

section \<open>External collaborators\<close>

text \<open>
  A reply of a generative collaborator is \<^verbatim>\<open>response.choices[0].message\<close>: its text, its
  refusal flag and, for a structured call, \<^verbatim>\<open>parsed.model_dump()\<close> (None when nothing was
  parsed). The retry wrapper is part of the collaborator: a call site gets either the
  reply or the exception raised after the last attempt. The prompt text is not modelled,
  so the reply at each call site is an arbitrary value of the record below; what the
  source evaluates while it builds a prompt is modelled where it can raise.
\<close>

record message =
  msg_content :: "string option"
  msg_refusal :: "string option"
  msg_parsed :: "(string \<times> pyval) list option"

record collaborator =
  questions_reply :: "error + message"
  research_reply :: "error + message \<times> string list"
  url_title :: "string \<Rightarrow> string option"
  scoring_reply :: "error + message"
  refine_reply :: "error + message"
  polish_reply :: "error + message"
  solution_reply :: "error + message"
  visual_reply :: "error + message"

definition outbound :: "string \<Rightarrow> world \<Rightarrow> world" where
  "outbound site w = w\<lparr>calls := calls w @ [site]\<rparr>"

definition refused :: "message \<Rightarrow> bool" where
  "refused m = (case msg_refusal m of Some r \<Rightarrow> r \<noteq> [] | None \<Rightarrow> False)"

section \<open>Pipeline stages\<close>

subsection \<open>Stage 1: research questions\<close>

definition identify_research_questions ::
  "pylib \<Rightarrow> collaborator \<Rightarrow> string \<Rightarrow> job_manager \<Rightarrow> world \<Rightarrow> (error + pyval) \<times> world" where
  "identify_research_questions lib openai_client use_case_content jm w =
     (case load_partial_result lib jm ''research_questions'' w of
        (Inl e, w1) \<Rightarrow> (Inl e, w1)
      | (Inr existing_content, w1) \<Rightarrow>
          if py_truthy existing_content then
            (let w2 = logging (Resuming ''research_questions'') w1 in
             case existing_content of
               PStr s \<Rightarrow> (Inr (PList (map PStr (split_on NL s))), w2)
             | _ \<Rightarrow> (Inl AttributeError, w2))
          else
            (let w2 = outbound ''identify_research_questions'' w1 in
             case questions_reply openai_client of
               Inl e \<Rightarrow> (Inl e, logging (StageError ''research_questions'' e) w2)
             | Inr m \<Rightarrow>
                 (case msg_content m of
                    None \<Rightarrow> (Inl AttributeError, logging (StageError ''research_questions'' AttributeError) w2)
                  | Some c \<Rightarrow>
                      (let questions = map py_strip (filter (\<lambda>q. py_strip q \<noteq> []) (split_on NL (py_strip c)))
                       in (Inr (PList (map PStr questions)),
                           save_partial_result lib jm ''research_questions'' (py_join [NL] questions) w2)))))"

subsection \<open>Stage 2: research\<close>

definition citation_entry :: "collaborator \<Rightarrow> string \<Rightarrow> pyval" where
  "citation_entry cl url =
     PDict [(''url'', PStr url),
            (''title'', (case url_title cl url of Some t \<Rightarrow> PStr t | None \<Rightarrow> PNone)),
            (''snippet'', PNone),
            (''relevance_score'', PNone)]"

definition deep_research ::
  "pylib \<Rightarrow> collaborator \<Rightarrow> string \<Rightarrow> pyval \<Rightarrow> job_manager \<Rightarrow> world \<Rightarrow> (error + pyval) \<times> world" where
  "deep_research lib perplexity_client use_case_content research_questions jm w =
     (case load_partial_result lib jm ''deep_research'' w of
        (Inl e, w1) \<Rightarrow> (Inl e, w1)
      | (Inr existing_content, w1) \<Rightarrow>
          if py_truthy existing_content then
            (Inr existing_content, logging (Resuming ''deep_research'') w1)
          else
            (case py_iter research_questions of
               Inl e \<Rightarrow> (Inl e, w1)
             | Inr qs \<Rightarrow>
                 (let w2 = outbound ''deep_research'' w1 in
                  case research_reply perplexity_client of
                    Inl e \<Rightarrow> (Inl e, w2)
                  | Inr (m, urls) \<Rightarrow>
                      (let citations = map (citation_entry perplexity_client) urls in
                       case msg_content m of
                         None \<Rightarrow> (Inl AttributeError, w2)
                       | Some c \<Rightarrow>
                           (let research_results =
                                  PDict [(''content'', PStr (py_strip c)), (''citations'', PList citations)]
                            in (Inr research_results,
                                save_partial_result lib jm ''deep_research''
                                  (json_dumps lib research_results) w2))))))"

subsection \<open>Stage 3: refinement\<close>

text \<open>
  \<^verbatim>\<open>research_data\<close>: a string (a resumed or legacy result) becomes the content of a
  result without citations.
\<close>

definition research_data_of :: "pyval \<Rightarrow> pyval" where
  "research_data_of raw_research =
     (case raw_research of
        PStr s \<Rightarrow> PDict [(''content'', raw_research), (''citations'', PList [])]
      | _ \<Rightarrow> raw_research)"

text \<open>The filter \<^verbatim>\<open>c.get('relevance_score', 0) >= 0.7\<close> of the list comprehension.\<close>

definition relevant :: "pyval \<Rightarrow> error + bool" where
  "relevant c = ebind (py_get c ''relevance_score'' (PInt 0)) (\<lambda>v. py_ge_float v (7 / 10))"

fun efilter :: "('a \<Rightarrow> error + bool) \<Rightarrow> 'a list \<Rightarrow> error + 'a list" where
  "efilter p [] = Inr []"
| "efilter p (x # xs) =
     ebind (p x) (\<lambda>b. ebind (efilter p xs) (\<lambda>ys. Inr (if b then x # ys else ys)))"

text \<open>
  Sub-call (i), from the scoring request to the two buckets: the reply's text is parsed
  and split into the official resources and the other citations of relevance at least 0.7.
\<close>

definition score_citations ::
  "pylib \<Rightarrow> collaborator \<Rightarrow> world \<Rightarrow> (error + pyval \<times> pyval list) \<times> world" where
  "score_citations lib openai_client w =
     (let w1 = outbound ''citation_scoring'' w in
      case scoring_reply openai_client of
        Inl e \<Rightarrow> (Inl e, w1)
      | Inr m \<Rightarrow>
          (case msg_content m of
             None \<Rightarrow> (Inl TypeError, w1)
           | Some text \<Rightarrow>
               (case json_loads lib text of
                  None \<Rightarrow> (Inl JSONDecodeError, w1)
                | Some scored_results \<Rightarrow>
                    (ebind (py_get scored_results ''official_resources'' (PList [])) (\<lambda>official_resources.
                     ebind (py_get scored_results ''citations'' (PList [])) (\<lambda>cs.
                     ebind (py_iter cs) (\<lambda>cl.
                     ebind (efilter relevant cl) (\<lambda>other_citations.
                     Inr (official_resources, other_citations))))), w1))))"

text \<open>The dictionary built from the reply of the structured call.\<close>

definition refined_struct ::
  "(string \<times> pyval) list \<Rightarrow> pyval \<Rightarrow> pyval list \<Rightarrow> message \<Rightarrow> error + (string \<times> pyval) list" where
  "refined_struct USE_CASE_CONFIG official_resources other_citations parsed_message =
     (if refused parsed_message then
        Inr [(''title'', PStr ''Refusal''),
             (''time_to_complete'', PStr ''0 minutes''),
             (''description'', PStr ''The model refused to comply.''),
             (''steps'', PList []),
             (''resources'', official_resources),
             (''metadata'', PDict USE_CASE_CONFIG),
             (''citations'', PList [])]
      else
        (case msg_parsed parsed_message of
           None \<Rightarrow> Inl AttributeError
         | Some structured_dict \<Rightarrow>
             Inr (AList.update ''citations'' (PList other_citations)
                   (AList.update ''resources'' official_resources
                     (AList.update ''metadata'' (PDict USE_CASE_CONFIG) structured_dict)))))"

definition refine_use_case_with_reasoning ::
  "pylib \<Rightarrow> collaborator \<Rightarrow> (string \<times> pyval) list \<Rightarrow> pyval \<Rightarrow> string \<Rightarrow> job_manager \<Rightarrow> world
     \<Rightarrow> (error + pyval) \<times> world" where
  "refine_use_case_with_reasoning lib openai_client USE_CASE_CONFIG raw_research use_case_content jm w =
     (case load_partial_result lib jm ''refined_draft'' w of
        (Inl e, w1) \<Rightarrow> (Inl e, w1)
      | (Inr existing_content, w1) \<Rightarrow>
          if py_truthy existing_content then (Inr existing_content, w1)
          else
            (let research_data = research_data_of raw_research in
             case py_getitem research_data ''citations'' of
               Inl e \<Rightarrow> (Inl e, w1)
             | Inr citations \<Rightarrow>
                 (case score_citations lib openai_client w1 of
                    (Inl e, w2) \<Rightarrow> (Inl e, w2)
                  | (Inr (official_resources, other_citations), w2) \<Rightarrow>
                      (case py_getitem research_data ''content'' of
                         Inl e \<Rightarrow> (Inl e, w2)
                       | Inr research_content \<Rightarrow>
                           (let w3 = outbound ''refine'' w2 in
                            case refine_reply openai_client of
                              Inl e \<Rightarrow> (Inl e, w3)
                            | Inr parsed_message \<Rightarrow>
                                (case refined_struct USE_CASE_CONFIG official_resources other_citations parsed_message of
                                   Inl e \<Rightarrow> (Inl e, w3)
                                 | Inr structured_dict \<Rightarrow>
                                     (let refined_draft_json = json_dumps_indent lib (PDict structured_dict)
                                      in (Inr (PStr refined_draft_json),
                                          save_partial_result lib jm ''refined_draft'' refined_draft_json w3))))))))"

subsection \<open>Stage 4: final polish\<close>

definition final_struct_of :: "(string \<times> pyval) list \<Rightarrow> message \<Rightarrow> error + (string \<times> pyval) list" where
  "final_struct_of USE_CASE_CONFIG parsed_message =
     (if refused parsed_message then
        Inr [(''title'', PStr ''Refusal''),
             (''time_to_complete'', PStr ''0 minutes''),
             (''description'', PStr ''The model refused to comply.''),
             (''steps'', PList []),
             (''resources'', PList []),
             (''metadata'', PDict USE_CASE_CONFIG)]
      else
        (case msg_parsed parsed_message of
           None \<Rightarrow> Inl AttributeError
         | Some final_struct \<Rightarrow> Inr (AList.update ''metadata'' (PDict USE_CASE_CONFIG) final_struct)))"

definition finalize_use_case ::
  "pylib \<Rightarrow> collaborator \<Rightarrow> (string \<times> pyval) list \<Rightarrow> pyval \<Rightarrow> job_manager \<Rightarrow> world
     \<Rightarrow> (error + pyval) \<times> world" where
  "finalize_use_case lib openai_client USE_CASE_CONFIG refined_json jm w =
     (case load_partial_result lib jm ''final_use_case'' w of
        (Inl e, w1) \<Rightarrow> (Inl e, w1)
      | (Inr existing_content, w1) \<Rightarrow>
          if py_truthy existing_content then (Inr existing_content, w1)
          else
            (let w2 = outbound ''polish'' w1 in
             case polish_reply openai_client of
               Inl e \<Rightarrow> (Inl e, w2)
             | Inr parsed_message \<Rightarrow>
                 (case final_struct_of USE_CASE_CONFIG parsed_message of
                    Inl e \<Rightarrow> (Inl e, w2)
                  | Inr final_struct \<Rightarrow>
                      (let final_json = json_dumps_indent lib (PDict final_struct)
                       in (Inr (PStr final_json),
                           save_partial_result lib jm ''final_use_case'' final_json w2)))))"

subsection \<open>Stage 5: example solution\<close>

text \<open>
  The step titles read from the polished use case; JSONDecodeError and KeyError fall
  back to the configured steps, every other exception propagates.
\<close>

definition py_json_loads :: "pylib \<Rightarrow> pyval \<Rightarrow> error + pyval" where
  "py_json_loads lib v =
     (case v of
        PStr s \<Rightarrow> (case json_loads lib s of Some d \<Rightarrow> Inr d | None \<Rightarrow> Inl JSONDecodeError)
      | _ \<Rightarrow> Inl TypeError)"

definition use_case_steps_of :: "pylib \<Rightarrow> (string \<times> pyval) list \<Rightarrow> pyval \<Rightarrow> error + pyval" where
  "use_case_steps_of lib use_case_config polished_content =
     (case ebind (py_json_loads lib polished_content) (\<lambda>polished_data.
           ebind (py_get polished_data ''steps'' (PList [])) (\<lambda>steps.
           ebind (py_iter steps) (\<lambda>ss.
           ebind (emap (\<lambda>step. py_getitem step ''step_title'') ss) (\<lambda>titles.
           Inr (PList titles))))) of
        Inl JSONDecodeError \<Rightarrow> py_get (PDict use_case_config) ''steps'' (PList [])
      | Inl KeyError \<Rightarrow> py_get (PDict use_case_config) ''steps'' (PList [])
      | r \<Rightarrow> r)"

text \<open>\<^verbatim>\<open>len(v)\<close>.\<close>

fun py_len :: "pyval \<Rightarrow> error + nat" where
  "py_len (PStr s) = Inr (length s)"
| "py_len (PList xs) = Inr (length xs)"
| "py_len (PDict kvs) = Inr (length kvs)"
| "py_len _ = Inl TypeError"

definition generate_example_solution ::
  "pylib \<Rightarrow> collaborator \<Rightarrow> (string \<times> pyval) list \<Rightarrow> pyval \<Rightarrow> pyval \<Rightarrow> job_manager \<Rightarrow> world
     \<Rightarrow> (error + pyval) \<times> world" where
  "generate_example_solution lib openai_client use_case_config polished_content raw_research jm w =
     (case load_partial_result lib jm ''example_solution'' w of
        (Inl e, w1) \<Rightarrow> (Inl e, w1)
      | (Inr existing_content, w1) \<Rightarrow>
          if py_truthy existing_content then (Inr existing_content, w1)
          else
            (case ebind (use_case_steps_of lib use_case_config polished_content) (\<lambda>use_case_steps.
                  ebind (py_getitem (PDict use_case_config) ''title'') (\<lambda>title.
                  ebind (py_getitem (PDict use_case_config) ''family'') (\<lambda>family.
                  ebind (py_get raw_research ''content'' (PStr [])) (\<lambda>research_content.
                  Inr use_case_steps)))) of
               Inl e \<Rightarrow> (Inl e, w1)
             | Inr use_case_steps \<Rightarrow>
                 (let w2 = outbound ''example_solution'' w1 in
                  case solution_reply openai_client of
                    Inl e \<Rightarrow> (Inl e, w2)
                  | Inr m \<Rightarrow>
                      (case msg_parsed m of
                         None \<Rightarrow> (Inl AttributeError, w2)
                       | Some solution \<Rightarrow>
                           (case py_len use_case_steps of
                              Inl e \<Rightarrow> (Inl e, w2)
                            | Inr n \<Rightarrow>
                                (let solution_json = json_dumps_indent lib (PDict solution)
                                 in (Inr (PStr solution_json),
                                     save_partial_result lib jm ''example_solution'' solution_json w2)))))))"

subsection \<open>Stage 6: visual suggestions\<close>

definition suggest_visual_elements ::
  "pylib \<Rightarrow> collaborator \<Rightarrow> pyval \<Rightarrow> pyval \<Rightarrow> job_manager \<Rightarrow> world \<Rightarrow> (error + pyval) \<times> world" where
  "suggest_visual_elements lib openai_client final_use_case_json example_solution_json jm w =
     (case load_partial_result lib jm ''visual_suggestions'' w of
        (Inl e, w1) \<Rightarrow> (Inl e, w1)
      | (Inr existing_content, w1) \<Rightarrow>
          if py_truthy existing_content then (Inr existing_content, w1)
          else
            (let w2 = outbound ''visual_suggestions'' w1 in
             case visual_reply openai_client of
               Inl e \<Rightarrow> (Inl e, w2)
             | Inr m \<Rightarrow>
                 (case msg_content m of
                    None \<Rightarrow> (Inl AttributeError, w2)
                  | Some c \<Rightarrow>
                      (let suggestions = py_strip c
                       in (Inr (PStr suggestions),
                           save_partial_result lib jm ''visual_suggestions'' suggestions w2)))))"

section \<open>Document assembler\<close>

text \<open>Decimal digits of a loop index, as an f-string prints it.\<close>

fun show_nat_fuel :: "nat \<Rightarrow> nat \<Rightarrow> string" where
  "show_nat_fuel 0 n = []"
| "show_nat_fuel (Suc k) n =
     (if n < 10 then [char_of (48 + n)] else show_nat_fuel k (n div 10) @ [char_of (48 + n mod 10)])"

definition show_nat :: "nat \<Rightarrow> string" where
  "show_nat n = show_nat_fuel (Suc n) n"

definition enumerate1 :: "'a list \<Rightarrow> (nat \<times> 'a) list" where
  "enumerate1 xs = zip [1 ..< Suc (length xs)] xs"

definition econcat :: "(error + string) list \<Rightarrow> error + string" where
  "econcat ms = ebind (emap (\<lambda>m. m) ms) (\<lambda>parts. Inr (concat parts))"

text \<open>One piece of text under a truthiness test: the piece is evaluated only when the
  test holds.\<close>

definition when_truthy :: "pyval \<Rightarrow> (error + string) \<Rightarrow> error + string" where
  "when_truthy v m = (if py_truthy v then m else Inr [])"

definition render_header :: "pylib \<Rightarrow> pyval \<Rightarrow> error + string" where
  "render_header lib data =
     ebind (py_getitem data ''title'') (\<lambda>title.
     ebind (py_getitem data ''time_to_complete'') (\<lambda>time_to_complete.
     ebind (py_getitem data ''description'') (\<lambda>description.
     Inr (''# '' @ py_format lib title @ [NL, NL] @
          ''**Time to Complete:** '' @ py_format lib time_to_complete @ [NL, NL] @
          ''## Description'' @ [NL] @ py_format lib description @ [NL, NL] @
          ''## Steps'' @ [NL]))))"

definition render_bullet :: "pylib \<Rightarrow> pyval \<Rightarrow> string" where
  "render_bullet lib bullet = ''   - '' @ py_format lib bullet @ [NL]"

definition render_sub_step :: "pylib \<Rightarrow> nat \<times> pyval \<Rightarrow> error + string" where
  "render_sub_step lib js =
     (case js of (j, sub_step) \<Rightarrow>
        ebind (py_getitem sub_step ''title'') (\<lambda>title.
        ebind (py_get sub_step ''description'' PNone) (\<lambda>description.
        ebind (py_get sub_step ''bullets'' PNone) (\<lambda>bullets.
        ebind (when_truthy bullets
                 (ebind (py_iter bullets) (\<lambda>bs. Inr (concat (map (render_bullet lib) bs))))) (\<lambda>bullet_text.
        Inr (show_nat j @ ''. **'' @ py_format lib title @ ''**'' @ [NL] @
             (if py_truthy description then ''   '' @ py_format lib description @ [NL] else []) @
             bullet_text @ [NL]))))))"

definition render_step :: "pylib \<Rightarrow> nat \<times> pyval \<Rightarrow> error + string" where
  "render_step lib istep =
     (case istep of (i, step) \<Rightarrow>
        ebind (py_getitem step ''step_title'') (\<lambda>step_title.
        ebind (py_getitem step ''step_instructions'') (\<lambda>step_instructions.
        ebind (py_get step ''sub_steps'' PNone) (\<lambda>sub_steps.
        ebind (when_truthy sub_steps
                 (ebind (py_iter sub_steps) (\<lambda>ss. econcat (map (render_sub_step lib) (enumerate1 ss))))) (\<lambda>sub_text.
        ebind (py_get step ''advice'' PNone) (\<lambda>advice.
        Inr (''### Step '' @ show_nat i @ '': '' @ py_format lib step_title @ [NL] @
             py_format lib step_instructions @ [NL, NL] @
             sub_text @
             (if py_truthy advice then py_format lib advice @ [NL, NL] else []))))))))"

definition render_steps :: "pylib \<Rightarrow> pyval \<Rightarrow> error + string" where
  "render_steps lib data =
     ebind (py_getitem data ''steps'') (\<lambda>steps.
     ebind (py_iter steps) (\<lambda>ss.
     econcat (map (render_step lib) (enumerate1 ss))))"

subsection \<open>Resources, grouped by type\<close>

text \<open>
  \<^verbatim>\<open>resources_by_type\<close> is a dictionary with the three keys below, in this order. A
  resource that is a dictionary goes to the list of its \<^verbatim>\<open>type\<close> (default \<^verbatim>\<open>tool\<close>; KeyError
  on any other type, TypeError on an unhashable one); anything else is a legacy
  resource and goes to \<^verbatim>\<open>tool\<close>.
\<close>

definition resources_by_type0 :: "(string \<times> pyval list) list" where
  "resources_by_type0 = [(''tool'', []), (''language'', []), (''mode'', [])]"

definition append_to :: "string \<Rightarrow> pyval \<Rightarrow> (string \<times> pyval list) list \<Rightarrow> (string \<times> pyval list) list" where
  "append_to k r g = map (\<lambda>kv. if fst kv = k then (fst kv, snd kv @ [r]) else kv) g"

definition group_resource :: "(string \<times> pyval list) list \<Rightarrow> pyval \<Rightarrow> error + (string \<times> pyval list) list" where
  "group_resource g resource =
     (case resource of
        PDict kvs \<Rightarrow>
          (case (case map_of kvs ''type'' of Some t \<Rightarrow> t | None \<Rightarrow> PStr ''tool'') of
             PStr resource_type \<Rightarrow>
               if map_of g resource_type = None then Inl KeyError
               else Inr (append_to resource_type resource g)
           | PList xs \<Rightarrow> Inl TypeError
           | PDict d \<Rightarrow> Inl TypeError
           | _ \<Rightarrow> Inl KeyError)
      | _ \<Rightarrow> Inr (append_to ''tool'' (PDict [(''url'', resource), (''title'', PStr ''Official Resource'')]) g))"

fun efold :: "('b \<Rightarrow> 'a \<Rightarrow> error + 'b) \<Rightarrow> 'a list \<Rightarrow> 'b \<Rightarrow> error + 'b" where
  "efold f [] acc = Inr acc"
| "efold f (x # xs) acc = ebind (f acc x) (efold f xs)"

definition type_headers :: "(string \<times> string) list" where
  "type_headers =
     [(''tool'', ''Tool Documentation''),
      (''language'', ''Language Documentation''),
      (''mode'', ''Mode-specific Documentation'')]"

definition render_resource :: "pylib \<Rightarrow> pyval \<Rightarrow> error + string" where
  "render_resource lib resource =
     ebind (py_get resource ''title'' (PStr ''Official Resource'')) (\<lambda>title.
     ebind (py_getitem resource ''url'') (\<lambda>url.
     ebind (py_get resource ''section'' (PStr [])) (\<lambda>section.
     Inr (''* ['' @ py_format lib title @ '']('' @ py_format lib url @ '')'' @
          (if py_truthy section then '' - '' @ py_format lib section else []) @ [NL]))))"

definition render_group :: "pylib \<Rightarrow> (string \<times> pyval list) list \<Rightarrow> string \<times> string \<Rightarrow> error + string" where
  "render_group lib g th =
     (case map_of g (fst th) of
        None \<Rightarrow> Inl KeyError
      | Some resources \<Rightarrow>
          if resources \<noteq> [] then
            ebind (econcat (map (render_resource lib) resources)) (\<lambda>items.
            Inr (''### '' @ snd th @ [NL] @ items @ [NL]))
          else Inr [])"

definition render_resources :: "pylib \<Rightarrow> pyval \<Rightarrow> error + string" where
  "render_resources lib data =
     ebind (py_getitem data ''resources'') (\<lambda>res.
     when_truthy res
       (ebind (py_iter res) (\<lambda>rs.
        ebind (efold group_resource rs resources_by_type0) (\<lambda>g.
        ebind (econcat (map (render_group lib g) type_headers)) (\<lambda>sections.
        Inr (''## Resources'' @ [NL] @ sections))))))"

subsection \<open>Additional references, sorted by relevance\<close>

text \<open>
  \<^verbatim>\<open>sorted(..., key=..., reverse=True)\<close> is stable: citations of equal key keep their
  order. The keys are computed for the whole list first, so one failing key fails the sort.
\<close>

definition relevance_key :: "pylib \<Rightarrow> pyval \<Rightarrow> error + rat" where
  "relevance_key lib x = ebind (py_get x ''relevance_score'' (PInt 0)) (py_float lib)"

definition sorted_citations :: "pylib \<Rightarrow> pyval list \<Rightarrow> error + pyval list" where
  "sorted_citations lib cs =
     ebind (emap (relevance_key lib) cs) (\<lambda>keys.
     Inr (map snd (sort_key (\<lambda>p. - fst p) (zip keys cs))))"

definition render_citation :: "pylib \<Rightarrow> pyval \<Rightarrow> error + string" where
  "render_citation lib citation =
     ebind (py_get citation ''title'' (PStr ''Untitled'')) (\<lambda>title.
     ebind (py_getitem citation ''url'') (\<lambda>url.
     ebind (py_get citation ''snippet'' PNone) (\<lambda>snippet.
     Inr (''* ['' @ py_format lib title @ '']('' @ py_format lib url @ '')'' @
          (if py_truthy snippet then [NL] @ ''  > '' @ py_format lib snippet else []) @ [NL]))))"

definition render_citations :: "pylib \<Rightarrow> pyval \<Rightarrow> error + string" where
  "render_citations lib data =
     ebind (py_get data ''citations'' PNone) (\<lambda>c.
     when_truthy c
       (ebind (py_getitem data ''citations'') (\<lambda>citations.
        ebind (py_iter citations) (\<lambda>cs.
        ebind (sorted_citations lib cs) (\<lambda>sorted_cs.
        ebind (econcat (map (render_citation lib) sorted_cs)) (\<lambda>items.
        Inr (''## Additional References'' @ [NL] @ items @ [NL])))))))"

subsection \<open>Example solution, visual elements, metadata\<close>

definition render_list_items :: "pylib \<Rightarrow> pyval \<Rightarrow> error + string" where
  "render_list_items lib v =
     ebind (py_iter v) (\<lambda>xs. Inr (concat (map (\<lambda>x. ''* '' @ py_format lib x @ [NL]) xs)))"

definition render_demo_step :: "pylib \<Rightarrow> nat \<times> pyval \<Rightarrow> error + string" where
  "render_demo_step lib istep =
     (case istep of (i, step) \<Rightarrow>
        ebind (py_getitem step ''action'') (\<lambda>action.
        (case step of
           PDict kvs \<Rightarrow>
             Inr (show_nat i @ ''. **'' @ py_format lib action @ ''**'' @ [NL] @
                  (case map_of kvs ''code_or_prompt'' of
                     Some code_or_prompt \<Rightarrow> ''```'' @ [NL] @ py_format lib code_or_prompt @ [NL] @ ''```'' @ [NL]
                   | None \<Rightarrow> []))
         | _ \<Rightarrow> Inl TypeError)))"

definition render_example :: "pylib \<Rightarrow> pyval \<Rightarrow> error + string" where
  "render_example lib example_solution_json =
     when_truthy example_solution_json
       (ebind (py_json_loads lib example_solution_json) (\<lambda>example.
        ebind (py_getitem example ''solution'') (\<lambda>solution.
        ebind (py_getitem solution ''title'') (\<lambda>title.
        ebind (py_getitem solution ''setup_time'') (\<lambda>setup_time.
        ebind (py_getitem solution ''demo_time'') (\<lambda>demo_time.
        ebind (py_getitem solution ''scenario'') (\<lambda>scenario.
        ebind (ebind (py_getitem solution ''prerequisites'') (render_list_items lib)) (\<lambda>prereqs.
        ebind (ebind (py_getitem solution ''steps'') (\<lambda>steps.
               ebind (py_iter steps) (\<lambda>ss.
               econcat (map (render_demo_step lib) (enumerate1 ss))))) (\<lambda>demo_steps.
        ebind (ebind (py_getitem solution ''validation'') (render_list_items lib)) (\<lambda>checks.
        ebind (ebind (py_getitem solution ''key_points'') (render_list_items lib)) (\<lambda>points.
        ebind (ebind (py_getitem solution ''common_issues'') (render_list_items lib)) (\<lambda>issues.
        ebind (py_get solution ''variations'' PNone) (\<lambda>variations.
        ebind (when_truthy variations
                 (ebind (render_list_items lib variations) (\<lambda>vs.
                  Inr ([NL] @ ''### Variations'' @ [NL] @ vs)))) (\<lambda>variation_text.
        ebind (py_getitem example ''demo_script'') (\<lambda>demo_script.
        Inr (''## Example Solution: '' @ py_format lib title @ [NL, NL] @
             ''**Setup Time:** '' @ py_format lib setup_time @ '' minutes  '' @ [NL] @
             ''**Demo Time:** '' @ py_format lib demo_time @ '' minutes'' @ [NL, NL] @
             ''### Scenario'' @ [NL] @ py_format lib scenario @ [NL, NL] @
             ''### Prerequisites'' @ [NL] @ prereqs @
             [NL] @ ''### Demo Steps'' @ [NL] @ demo_steps @
             [NL] @ ''### Validation'' @ [NL] @ checks @
             [NL] @ ''### Key Teaching Points'' @ [NL] @ points @
             [NL] @ ''### Common Issues to Watch For'' @ [NL] @ issues @
             variation_text @
             [NL] @ ''### Demo Script'' @ [NL] @ py_format lib demo_script @ [NL]))))))))))))))))"

definition render_visual :: "pyval \<Rightarrow> error + string" where
  "render_visual visual_suggestions =
     when_truthy visual_suggestions
       (case visual_suggestions of
          PStr s \<Rightarrow>
            Inr ([NL] @ ''## Visual Elements'' @ [NL] @
                 ''The following visual elements are recommended to enhance this use case:'' @ [NL, NL] @
                 s @ [NL])
        | _ \<Rightarrow> Inl TypeError)"

definition render_meta_item :: "pylib \<Rightarrow> string \<times> pyval \<Rightarrow> error + string" where
  "render_meta_item lib kv =
     (case snd kv of
        PNone \<Rightarrow> Inr []
      | PList xs \<Rightarrow>
          ebind (emap (\<lambda>x. case x of PStr s \<Rightarrow> Inr s | _ \<Rightarrow> Inl TypeError) xs) (\<lambda>strs.
          Inr (''* **'' @ fst kv @ '':** '' @ py_join '', '' strs @ [NL]))
      | v \<Rightarrow> Inr (''* **'' @ fst kv @ '':** '' @ py_format lib v @ [NL]))"

definition render_metadata :: "pylib \<Rightarrow> pyval \<Rightarrow> error + string" where
  "render_metadata lib data =
     ebind (py_get data ''metadata'' PNone) (\<lambda>meta.
     when_truthy meta
       (case meta of
          PDict kvs \<Rightarrow>
            ebind (econcat (map (render_meta_item lib) kvs)) (\<lambda>items.
            Inr ([NL] @ ''## Metadata'' @ [NL] @ items))
        | _ \<Rightarrow> Inl AttributeError))"

subsection \<open>The whole document\<close>

text \<open>
  The body of the \<^verbatim>\<open>try\<close> block: the sections are appended in this order, and the first
  exception leaves the block. \<^verbatim>\<open>convert_json_to_markdown\<close> returns the text, or the empty
  string when the body raised.
\<close>

definition convert_body :: "pylib \<Rightarrow> pyval \<Rightarrow> pyval \<Rightarrow> pyval \<Rightarrow> error + string" where
  "convert_body lib json_content example_solution_json visual_suggestions =
     ebind (py_json_loads lib json_content) (\<lambda>data.
     ebind (render_header lib data) (\<lambda>header.
     ebind (render_steps lib data) (\<lambda>steps.
     ebind (render_resources lib data) (\<lambda>resources.
     ebind (render_citations lib data) (\<lambda>citations.
     ebind (render_example lib example_solution_json) (\<lambda>example.
     ebind (render_visual visual_suggestions) (\<lambda>visual.
     ebind (render_metadata lib data) (\<lambda>metadata.
     Inr (header @ steps @ resources @ citations @ example @ visual @ metadata)))))))))"

definition convert_json_to_markdown :: "pylib \<Rightarrow> pyval \<Rightarrow> pyval \<Rightarrow> pyval \<Rightarrow> string" where
  "convert_json_to_markdown lib json_content example_solution_json visual_suggestions =
     (case convert_body lib json_content example_solution_json visual_suggestions of
        Inl e \<Rightarrow> []
      | Inr markdown \<Rightarrow> markdown)"

definition write_markdown_file :: "string \<Rightarrow> job_manager \<Rightarrow> world \<Rightarrow> world" where
  "write_markdown_file markdown_content jm w =
     (let filepath = path_join (job_dir jm) ''use_case.md''
      in logging (WroteMarkdown filepath) (w\<lparr>files := (files w)(filepath \<mapsto> markdown_content)\<rparr>))"

section \<open>The driver\<close>

text \<open>
  The configuration: every command-line flag is optional, and an absent or empty flag
  takes the default. The comma-separated flags become lists; their defaults are strings.
\<close>

record args =
  arg_title :: "string option"
  arg_family :: "string option"
  arg_ai_tool :: "string option"
  arg_objective :: "string option"
  arg_description :: "string option"
  arg_prerequisites :: "string option"
  arg_time_estimate :: "string option"
  arg_steps :: "string option"
  arg_tool :: "string option"
  arg_department :: "string option"
  arg_role :: "string option"
  arg_mode :: "string option"
  arg_model :: "string option"
  arg_coding_language :: "string option"

definition str_arg :: "string option \<Rightarrow> string \<Rightarrow> pyval" where
  "str_arg a d = PStr (case a of Some s \<Rightarrow> if s \<noteq> [] then s else d | None \<Rightarrow> d)"

definition list_arg :: "string option \<Rightarrow> string \<Rightarrow> pyval" where
  "list_arg a d =
     (case a of
        Some s \<Rightarrow> if s \<noteq> [] then PList (map PStr (split_on (CHR '','') s)) else PStr d
      | None \<Rightarrow> PStr d)"

definition get_use_case_config :: "args \<Rightarrow> (string \<times> pyval) list" where
  "get_use_case_config a =
     [(''title'', str_arg (arg_title a) ''Craft Effective Code Prompts for AI Assistance''),
      (''family'', str_arg (arg_family a) ''Core Skills''),
      (''ai_tool'', str_arg (arg_ai_tool a) ''Coding Assistants''),
      (''objective'', str_arg (arg_objective a)
         ''Enable developers to effectively communicate programming intent through structured comments that trigger accurate AI code generation''),
      (''description'', str_arg (arg_description a)
         ''This use case trains developers to harness AI tooling by writing precise comments and docstrings that function as prompts for automated code generation. It emphasizes the importance of natural language clarity in directives (e.g., docstrings and TODOs) and guides participants to refine prompts as needed while validating AI-generated outputs against the original intent.''),
      (''prerequisites'', list_arg (arg_prerequisites a)
         ''Writing clear code comments, Understanding code structure, Basic algorithmic thinking, Familiarity with code completion tools, Basic understanding of natural language processing''),
      (''time_estimate'', str_arg (arg_time_estimate a) ''20 minutes''),
      (''steps'', list_arg (arg_steps a)
         ''Write a detailed function description in docstring format, Add TODO comments with specific algorithm requirements, Use natural language to describe complex logic before implementation, Refine prompts based on initial AI outputs, Validate generated code against original intent''),
      (''tool'', str_arg (arg_tool a) ''GitHub Copilot''),
      (''department'', list_arg (arg_department a) ''SWE''),
      (''role'', list_arg (arg_role a) ''front-end''),
      (''mode'', str_arg (arg_mode a) ''inline chat''),
      (''model'', str_arg (arg_model a) ''GPT-4o''),
      (''coding_language'', str_arg (arg_coding_language a) ''Python'')]"

text \<open>
  The variables of \<^verbatim>\<open>main\<close> that the six blocks assign. A variable is read only by a
  later block, after the block that assigns it has succeeded or recovered.
\<close>

record vars =
  questions_to_ask :: pyval
  deep_research_results :: pyval
  refined_draft_json :: pyval
  final_use_case_json :: pyval
  example_solution_json :: pyval
  visual_suggestions :: pyval
  step_results :: "(string \<times> bool) list"

definition vars0 :: vars where
  "vars0 = \<lparr>questions_to_ask = PNone, deep_research_results = PNone, refined_draft_json = PNone,
            final_use_case_json = PNone, example_solution_json = PNone, visual_suggestions = PNone,
            step_results = []\<rparr>"

definition stage_names :: "string list" where
  "stage_names =
     [''research_questions'', ''deep_research'', ''refined_draft'',
      ''final_use_case'', ''example_solution'', ''visual_suggestions'']"

text \<open>The call of the stage inside the \<^verbatim>\<open>try\<close> of its block, with the arguments \<^verbatim>\<open>main\<close> passes.\<close>

definition run_stage ::
  "pylib \<Rightarrow> collaborator \<Rightarrow> (string \<times> pyval) list \<Rightarrow> job_manager \<Rightarrow> string \<Rightarrow> string \<Rightarrow> vars \<Rightarrow> world
     \<Rightarrow> (error + pyval) \<times> world" where
  "run_stage lib cl USE_CASE_CONFIG jm use_case_content name v w =
     (if name = ''research_questions'' then
        identify_research_questions lib cl use_case_content jm w
      else if name = ''deep_research'' then
        deep_research lib cl use_case_content (questions_to_ask v) jm w
      else if name = ''refined_draft'' then
        refine_use_case_with_reasoning lib cl USE_CASE_CONFIG (deep_research_results v) use_case_content jm w
      else if name = ''final_use_case'' then
        finalize_use_case lib cl USE_CASE_CONFIG (refined_draft_json v) jm w
      else if name = ''example_solution'' then
        generate_example_solution lib cl USE_CASE_CONFIG (final_use_case_json v) (deep_research_results v) jm w
      else
        suggest_visual_elements lib cl (final_use_case_json v) (example_solution_json v) jm w)"

definition assign_result :: "string \<Rightarrow> pyval \<Rightarrow> bool \<Rightarrow> vars \<Rightarrow> vars" where
  "assign_result name r ok v =
     (let v1 = v\<lparr>step_results := AList.update name ok (step_results v)\<rparr> in
      if name = ''research_questions'' then v1\<lparr>questions_to_ask := r\<rparr>
      else if name = ''deep_research'' then v1\<lparr>deep_research_results := r\<rparr>
      else if name = ''refined_draft'' then v1\<lparr>refined_draft_json := r\<rparr>
      else if name = ''final_use_case'' then v1\<lparr>final_use_case_json := r\<rparr>
      else if name = ''example_solution'' then v1\<lparr>example_solution_json := r\<rparr>
      else v1\<lparr>visual_suggestions := r\<rparr>)"

text \<open>
  One \<^verbatim>\<open>try\<close>/\<^verbatim>\<open>except\<close> block of \<^verbatim>\<open>main\<close>. The six blocks differ only in the stage they
  call and the variable they assign: on success the result is assigned and the step
  recorded as True; on an exception the failure policy is asked, an exception of the
  policy propagates, a falsy substitute re-raises the stage's exception, and a truthy
  one is assigned with the step recorded as False.
\<close>

definition main_block ::
  "pylib \<Rightarrow> collaborator \<Rightarrow> (string \<times> pyval) list \<Rightarrow> job_manager \<Rightarrow> string \<Rightarrow> string \<Rightarrow> vars \<Rightarrow> world
     \<Rightarrow> (error + vars) \<times> world" where
  "main_block lib cl USE_CASE_CONFIG jm use_case_content name v w =
     (case run_stage lib cl USE_CASE_CONFIG jm use_case_content name v (logging (StepStart name) w) of
        (Inr r, w1) \<Rightarrow> (Inr (assign_result name r True v), logging (StepDone name) w1)
      | (Inl e, w1) \<Rightarrow>
          (case handle_step_failure lib jm name e w1 of
             (Inl e', w2) \<Rightarrow> (Inl e', w2)
           | (Inr r, w2) \<Rightarrow>
               if \<not> py_truthy r then (Inl e, w2)
               else (Inr (assign_result name r False v), w2)))"

fun run_blocks ::
  "pylib \<Rightarrow> collaborator \<Rightarrow> (string \<times> pyval) list \<Rightarrow> job_manager \<Rightarrow> string \<Rightarrow> string list \<Rightarrow> vars \<Rightarrow> world
     \<Rightarrow> (error + vars) \<times> world" where
  "run_blocks lib cl cfg jm content [] v w = (Inr v, w)"
| "run_blocks lib cl cfg jm content (name # names) v w =
     (case main_block lib cl cfg jm content name v w of
        (Inl e, w1) \<Rightarrow> (Inl e, w1)
      | (Inr v1, w1) \<Rightarrow> run_blocks lib cl cfg jm content names v1 w1)"

text \<open>
  \<^verbatim>\<open>main\<close> from the first block on, for a job whose directory exists: the six blocks in
  order, then the document is assembled and written and the outcome logged. An
  exception of a block is logged and raised again. \<open>use_case_content\<close> is the text
  \<^verbatim>\<open>format_use_case_content()\<close> returns, which only enters prompts.
\<close>

definition main ::
  "pylib \<Rightarrow> collaborator \<Rightarrow> args \<Rightarrow> job_manager \<Rightarrow> string \<Rightarrow> world \<Rightarrow> (error + unit) \<times> world" where
  "main lib cl a jm use_case_content w =
     (let USE_CASE_CONFIG = get_use_case_config a in
      case run_blocks lib cl USE_CASE_CONFIG jm use_case_content stage_names vars0 w of
        (Inl err, w1) \<Rightarrow> (Inl err, logging (RunError err) w1)
      | (Inr v, w1) \<Rightarrow>
          (let w2 = logging GeneratingMarkdown w1;
               markdown_content = convert_json_to_markdown lib
                  (final_use_case_json v) (example_solution_json v) (visual_suggestions v);
               w3 = write_markdown_file markdown_content jm w2;
               failed_steps = map fst (filter (\<lambda>sr. \<not> snd sr) (step_results v));
               w4 = (if failed_steps \<noteq> [] then logging (PartialResults failed_steps) w3
                     else logging Complete w3)
           in (Inr (), logging (ResultsStored (job_dir jm)) w4)))"

section \<open>Sample inputs\<close>

text \<open>
  A small run to evaluate the model on. The sample codec stores the content of a step
  record as the file's text, so a file of text \<open>t\<close> holds the record of content \<open>t\<close>;
  every other document prints as \<^verbatim>\<open>{}\<close>, and the text \<^verbatim>\<open>scores\<close> stands for a scoring reply.
\<close>

definition demo_scores :: pyval where
  "demo_scores =
     PDict [(''official_resources'',
               PList [PDict [(''url'', PStr ''https://docs.example.org/tool''),
                             (''title'', PStr ''Tool guide''), (''type'', PStr ''tool'')]]),
            (''citations'',
               PList [PDict [(''url'', PStr ''https://example.org/a''), (''relevance_score'', PFloat (9 / 10))],
                      PDict [(''url'', PStr ''https://example.org/b''), (''relevance_score'', PFloat (1 / 2))]])]"

definition demo_lib :: pylib where
  "demo_lib =
     \<lparr>json_loads = (\<lambda>s. if s = ''scores'' then Some demo_scores else Some (PDict [(''content'', PStr s)])),
      json_dumps = (\<lambda>v. ''{}''),
      json_dumps_indent = (\<lambda>v. case v of PDict [(k, PStr s)] \<Rightarrow> s | _ \<Rightarrow> ''{}''),
      str_of = (\<lambda>v. ''?''),
      float_of_str = (\<lambda>s. None)\<rparr>"

definition demo_job :: job_manager where
  "demo_job = \<lparr>job_id = ''demo_20250101_000000'', job_dir = ''jobs/demo''\<rparr>"

definition world0 :: world where
  "world0 = \<lparr>files = Map.empty, calls = [], log = []\<rparr>"

definition demo_client :: collaborator where
  "demo_client =
     \<lparr>questions_reply = Inr \<lparr>msg_content = Some (''Which features matter?'' @ [NL] @ ''  Which pitfalls are common?  ''),
                               msg_refusal = None, msg_parsed = None\<rparr>,
      research_reply = Inr (\<lparr>msg_content = Some '' Findings. '', msg_refusal = None, msg_parsed = None\<rparr>,
                            [''https://example.org/docs'']),
      url_title = (\<lambda>u. Some ''Example docs''),
      scoring_reply = Inr \<lparr>msg_content = Some ''scores'', msg_refusal = None, msg_parsed = None\<rparr>,
      refine_reply = Inr \<lparr>msg_content = None, msg_refusal = None,
                           msg_parsed = Some [(''title'', PStr ''Plan''), (''steps'', PList []),
                                              (''resources'', PList [PStr ''from the model'']),
                                              (''metadata'', PNone)]\<rparr>,
      polish_reply = Inr \<lparr>msg_content = None, msg_refusal = None,
                           msg_parsed = Some [(''title'', PStr ''Plan''), (''steps'', PList [])]\<rparr>,
      solution_reply = Inr \<lparr>msg_content = None, msg_refusal = None,
                             msg_parsed = Some [(''demo_script'', PStr ''Show it.'')]\<rparr>,
      visual_reply = Inr \<lparr>msg_content = Some ''A screenshot.'', msg_refusal = None, msg_parsed = None\<rparr>\<rparr>"

definition demo_args :: args where
  "demo_args =
     \<lparr>arg_title = Some ''Create a project plan'', arg_family = None, arg_ai_tool = None,
      arg_objective = None, arg_description = None, arg_prerequisites = None,
      arg_time_estimate = None, arg_steps = Some ''Draft,Review'', arg_tool = None,
      arg_department = None, arg_role = None, arg_mode = None, arg_model = None,
      arg_coding_language = None\<rparr>"

definition failing_client :: collaborator where
  "failing_client = demo_client\<lparr>refine_reply := Inl (APIError ''service unavailable'')\<rparr>"

definition refusing_client :: collaborator where
  "refusing_client = demo_client\<lparr>refine_reply :=
      Inr \<lparr>msg_content = None, msg_refusal = Some ''I cannot help with that.'', msg_parsed = None\<rparr>\<rparr>"

definition blank_client :: collaborator where
  "blank_client = demo_client\<lparr>visual_reply :=
      Inr \<lparr>msg_content = Some ''  '', msg_refusal = None, msg_parsed = None\<rparr>\<rparr>"

definition researched_vars :: vars where
  "researched_vars = vars0\<lparr>deep_research_results :=
      PDict [(''content'', PStr ''Findings.''), (''citations'', PList [])]\<rparr>"

definition demo_questions :: pyval where
  "demo_questions = PList [PStr ''Which features matter?'', PStr ''Which pitfalls are common?'']"

text \<open>The worlds a first run of Stage 1, of Stage 2 and of Stage 6 leaves behind.\<close>

definition questions_cached_world :: world where
  "questions_cached_world = snd (identify_research_questions demo_lib demo_client [] demo_job world0)"

definition researched_world :: world where
  "researched_world = snd (deep_research demo_lib demo_client [] demo_questions demo_job world0)"

definition blank_cached_world :: world where
  "blank_cached_world = snd (suggest_visual_elements demo_lib blank_client PNone PNone demo_job world0)"

text \<open>Sample documents for the assembler; \<open>doc_lib doc\<close> parses every text as \<open>doc\<close>.\<close>

definition resource_entry :: "string \<Rightarrow> string \<Rightarrow> string \<Rightarrow> pyval" where
  "resource_entry ty title url = PDict [(''url'', PStr url), (''title'', PStr title), (''type'', PStr ty)]"

definition demo_resources :: "pyval list" where
  "demo_resources =
     [resource_entry ''mode'' ''Inline chat'' ''https://docs.example.org/mode'',
      resource_entry ''tool'' ''Tool guide'' ''https://docs.example.org/tool'',
      resource_entry ''language'' ''Language reference'' ''https://docs.example.org/lang'',
      resource_entry ''tool'' ''Tool FAQ'' ''https://docs.example.org/faq'']"

definition scored_citation :: "string \<Rightarrow> pyval \<Rightarrow> pyval" where
  "scored_citation url score = PDict [(''url'', PStr url), (''title'', PStr url), (''relevance_score'', score)]"

definition unscored_citation :: "string \<Rightarrow> pyval" where
  "unscored_citation url = PDict [(''url'', PStr url), (''title'', PStr url)]"

definition demo_doc :: "pyval list \<Rightarrow> pyval list \<Rightarrow> pyval" where
  "demo_doc rs cs =
     PDict [(''title'', PStr ''Plan''), (''time_to_complete'', PStr ''20 minutes''),
            (''description'', PStr ''A plan.''), (''steps'', PList []),
            (''resources'', PList rs), (''citations'', PList cs)]"

definition doc_lib :: "pyval \<Rightarrow> pylib" where
  "doc_lib doc = demo_lib\<lparr>json_loads := (\<lambda>s. Some doc)\<rparr>"


section \<open>Step cache: round trip\<close>

lemma load_after_save:
  assumes "json_loads lib (json_dumps_indent lib (PDict [(''content'', PStr c)]))
             = Some (PDict [(''content'', PStr c)])"
  shows "fst (load_partial_result lib jm step (save_partial_result lib jm step c w)) = Inr (PStr c)"
  using assms by (simp add: load_partial_result_def save_partial_result_def logging_def)

lemma load_missing:
  "files w (get_filepath jm step) = None \<Longrightarrow> load_partial_result lib jm step w = (Inr PNone, w)"
  by (simp add: load_partial_result_def)

text \<open>
  Claim C3. For every job, step name and content string \<open>c\<close>, saving \<open>c\<close> and then
  loading the same step returns exactly \<open>c\<close>; loading a step whose file does not exist
  returns None, without an error and without changing anything. The first part rests on
  the one property of the JSON library the cache uses: parsing the text printed for the
  record \<^verbatim>\<open>{"content": c}\<close> gives that record back.
\<close>

theorem cache_round_trip:
  "(json_loads lib (json_dumps_indent lib (PDict [(''content'', PStr c)]))
        = Some (PDict [(''content'', PStr c)])
      \<longrightarrow> fst (load_partial_result lib jm step (save_partial_result lib jm step c w)) = Inr (PStr c))
   \<and> (files w (get_filepath jm step) = None
      \<longrightarrow> load_partial_result lib jm step w = (Inr PNone, w))"
  using load_after_save load_missing by blast

theorem cache_round_trip_witness:
  "fst (load_partial_result demo_lib demo_job ''refined_draft''
          (save_partial_result demo_lib demo_job ''refined_draft'' ''draft text'' world0))
     = Inr (PStr ''draft text'')
   \<and> load_partial_result demo_lib demo_job ''refined_draft'' world0 = (Inr PNone, world0)"
proof -
  have h1: "json_loads demo_lib (json_dumps_indent demo_lib (PDict [(''content'', PStr ''draft text'')]))
              = Some (PDict [(''content'', PStr ''draft text'')])"
    by (simp add: demo_lib_def)
  have h2: "files world0 (get_filepath demo_job ''refined_draft'') = None"
    by (simp add: world0_def)
  from cache_round_trip [of demo_lib "''draft text''" demo_job "''refined_draft''" world0] h1 h2
  show ?thesis by blast
qed

section \<open>Failure policy\<close>

text \<open>Without a file for the step, the policy is decided by the step name alone.\<close>

lemma handle_step_failure_no_cache:
  assumes "files w (get_filepath jm step) = None"
  shows "handle_step_failure lib jm step err w =
     (let w1 = logging (StepFailed step err) w in
       if step = ''research_questions'' then (Inr (PStr research_questions_fallback), w1)
       else if step = ''deep_research'' then (Inr (PStr (json_dumps lib deep_research_fallback)), w1)
       else if step = ''visual_suggestions'' then (Inr (PStr visual_suggestions_fallback), w1)
       else if step \<in> set [''refined_draft'', ''final_use_case'', ''example_solution''] then (Inl err, w1)
       else (Inr PNone, w1))"
  using assms
  by (simp add: handle_step_failure_def load_partial_result_def logging_def Let_def)

lemma run_blocks_append:
  "run_blocks lib cl cfg jm content pre v w = (Inr v1, w1) \<Longrightarrow>
   run_blocks lib cl cfg jm content (pre @ rest) v w = run_blocks lib cl cfg jm content rest v1 w1"
proof (induction pre arbitrary: v w)
  case Nil
  then show ?case by simp
next
  case (Cons name names)
  then show ?case by (auto split: prod.splits sum.splits)
qed

lemma main_block_reraises:
  assumes "run_stage lib cl cfg jm content step v (logging (StepStart step) w1) = (Inl err, w2)"
    and "fst (handle_step_failure lib jm step err w2) = Inl err"
  shows "fst (main_block lib cl cfg jm content step v w1) = Inl err"
  using assms by (auto simp: main_block_def split: prod.splits sum.splits)

text \<open>
  Claim C1. Let the step be one of refined_draft, final_use_case and example_solution,
  let the run reach its block (the blocks before it have completed), let the stage raise
  \<open>err\<close>, and let no file of the step exist when the failure policy runs. Then the policy
  raises \<open>err\<close> again instead of returning a value, and \<^verbatim>\<open>main\<close> ends with that exception.
\<close>

theorem no_fallback_stages_abort:
  assumes "step \<in> set [''refined_draft'', ''final_use_case'', ''example_solution'']"
    and "stage_names = pre @ step # post"
    and "run_blocks lib cl (get_use_case_config a) jm content pre vars0 w0 = (Inr v, w1)"
    and "run_stage lib cl (get_use_case_config a) jm content step v (logging (StepStart step) w1) = (Inl err, w2)"
    and "files w2 (get_filepath jm step) = None"
  shows "fst (handle_step_failure lib jm step err w2) = Inl err
         \<and> fst (main lib cl a jm content w0) = Inl err"
proof -
  have policy: "fst (handle_step_failure lib jm step err w2) = Inl err"
    using assms(1) by (auto simp: handle_step_failure_no_cache [OF assms(5)] Let_def)
  have "fst (main_block lib cl (get_use_case_config a) jm content step v w1) = Inl err"
    by (rule main_block_reraises [OF assms(4) policy])
  then have "fst (run_blocks lib cl (get_use_case_config a) jm content (step # post) v w1) = Inl err"
    by (auto split: prod.splits sum.splits)
  then have "fst (run_blocks lib cl (get_use_case_config a) jm content stage_names vars0 w0) = Inl err"
    using run_blocks_append [OF assms(3), of "step # post"] assms(2) by simp
  then have "fst (main lib cl a jm content w0) = Inl err"
    by (auto simp: main_def Let_def split: prod.splits sum.splits)
  with policy show ?thesis by simp
qed

theorem no_fallback_stages_abort_witness:
  "fst (main demo_lib failing_client demo_args demo_job [] world0) = Inl (APIError ''service unavailable'')"
proof -
  define cfg where "cfg = get_use_case_config demo_args"
  define X where "X = run_blocks demo_lib failing_client cfg demo_job []
                        [''research_questions'', ''deep_research''] vars0 world0"
  define Y where "Y = run_stage demo_lib failing_client cfg demo_job [] ''refined_draft''
                        (projr (fst X)) (logging (StepStart ''refined_draft'') (snd X))"
  have "\<not> isl (fst X)"
    unfolding X_def cfg_def by code_simp
  then have h3: "X = (Inr (projr (fst X)), snd X)"
    by (simp add: prod_eq_iff)
  have "fst Y = Inl (APIError ''service unavailable'')"
    unfolding Y_def X_def cfg_def by code_simp
  then have h4: "Y = (Inl (APIError ''service unavailable''), snd Y)"
    by (simp add: prod_eq_iff)
  have h5: "files (snd Y) (get_filepath demo_job ''refined_draft'') = None"
    unfolding Y_def X_def cfg_def by code_simp
  have h1: "''refined_draft'' \<in> set [''refined_draft'', ''final_use_case'', ''example_solution'']"
    by simp
  have h2: "stage_names = [''research_questions'', ''deep_research''] @ ''refined_draft'' #
              [''final_use_case'', ''example_solution'', ''visual_suggestions'']"
    by (simp add: stage_names_def)
  from no_fallback_stages_abort [OF h1 h2 h3 [unfolded X_def cfg_def]
         h4 [unfolded Y_def X_def cfg_def] h5 [unfolded Y_def X_def cfg_def]]
  show ?thesis by simp
qed



section \<open>Stage 3: what the refinement stage produces\<close>

lemma load_partial_result_frame:
  "load_partial_result lib jm step w = (r, w1) \<Longrightarrow> files w1 = files w \<and> calls w1 = calls w"
  by (auto simp: load_partial_result_def logging_def Let_def split: option.splits)

lemma refine_fresh:
  assumes "load_partial_result lib jm ''refined_draft'' w = (Inr c, w1)" and "\<not> py_truthy c"
    and "py_getitem (research_data_of raw) ''citations'' = Inr cits"
    and "score_citations lib cl w1 = (Inr (official, other), w2)"
    and "py_getitem (research_data_of raw) ''content'' = Inr rc"
    and "refine_reply cl = Inr m"
    and "refined_struct cfg official other m = Inr d"
  shows "refine_use_case_with_reasoning lib cl cfg raw content jm w =
           (Inr (PStr (json_dumps_indent lib (PDict d))),
            save_partial_result lib jm ''refined_draft'' (json_dumps_indent lib (PDict d)) (outbound ''refine'' w2))"
  using assms by (simp add: refine_use_case_with_reasoning_def Let_def)

lemma refined_struct_fields:
  assumes "refused m \<or> msg_parsed m \<noteq> None"
  shows "\<exists>d. refined_struct cfg official other m = Inr d
           \<and> map_of d ''metadata'' = Some (PDict cfg)
           \<and> (\<not> refused m \<longrightarrow> map_of d ''resources'' = Some official
                                  \<and> map_of d ''citations'' = Some (PList other))"
  using assms by (auto simp: refined_struct_def update_conv')

lemma main_block_success:
  assumes "run_stage lib cl cfg jm content name v (logging (StepStart name) w) = (Inr r, w1)"
  shows "run_blocks lib cl cfg jm content (name # names) v w =
           run_blocks lib cl cfg jm content names (assign_result name r True v) (logging (StepDone name) w1)"
  using assms by (simp add: main_block_def)

lemma demo_scoring:
  assumes "scoring_reply cl = scoring_reply demo_client"
  shows "score_citations demo_lib cl w =
     (Inr (PList [PDict [(''url'', PStr ''https://docs.example.org/tool''),
                         (''title'', PStr ''Tool guide''), (''type'', PStr ''tool'')]],
           [PDict [(''url'', PStr ''https://example.org/a''), (''relevance_score'', PFloat (9 / 10))]]),
      outbound ''citation_scoring'' w)"
  using assms
  by (simp add: score_citations_def demo_client_def demo_lib_def demo_scores_def
        relevant_def ebind_def Let_def)

text \<open>
  Claim C5. Take an invocation of Stage 3 that reaches the reply of the structured
  call: nothing is cached, the research result has its citations and content, sub-call
  (i) has returned the official resources and the other citations, and the reply is
  either flagged as refusal or carries a parsed value. Then the stage returns the
  printed form of a dictionary whose metadata is the original configuration, and, when
  the reply is not a refusal, whose resources and citations are the two buckets of
  sub-call (i), whatever the reply had in these three fields.
\<close>

theorem refine_overwrites_metadata:
  assumes "load_partial_result lib jm ''refined_draft'' w = (Inr c, w1)" and "\<not> py_truthy c"
    and "py_getitem (research_data_of raw) ''citations'' = Inr cits"
    and "score_citations lib cl w1 = (Inr (official, other), w2)"
    and "py_getitem (research_data_of raw) ''content'' = Inr rc"
    and "refine_reply cl = Inr m"
    and "refused m \<or> msg_parsed m \<noteq> None"
  shows "\<exists>d. fst (refine_use_case_with_reasoning lib cl cfg raw content jm w)
                = Inr (PStr (json_dumps_indent lib (PDict d)))
           \<and> map_of d ''metadata'' = Some (PDict cfg)
           \<and> (\<not> refused m \<longrightarrow> map_of d ''resources'' = Some official
                                  \<and> map_of d ''citations'' = Some (PList other))"
proof -
  from refined_struct_fields [OF assms(7), of cfg official other]
  obtain d where d: "refined_struct cfg official other m = Inr d"
    and f: "map_of d ''metadata'' = Some (PDict cfg)"
       "\<not> refused m \<longrightarrow> map_of d ''resources'' = Some official \<and> map_of d ''citations'' = Some (PList other)"
    by blast
  from refine_fresh [OF assms(1-6) d, of content]
  have "fst (refine_use_case_with_reasoning lib cl cfg raw content jm w)
          = Inr (PStr (json_dumps_indent lib (PDict d)))" by simp
  with f show ?thesis by blast
qed

theorem refine_overwrites_metadata_witness:
  "\<exists>d. fst (refine_use_case_with_reasoning demo_lib demo_client (get_use_case_config demo_args)
               (deep_research_results researched_vars) [] demo_job world0)
          = Inr (PStr (json_dumps_indent demo_lib (PDict d)))
      \<and> map_of d ''metadata'' = Some (PDict (get_use_case_config demo_args))
      \<and> map_of d ''resources'' =
          Some (PList [PDict [(''url'', PStr ''https://docs.example.org/tool''),
                              (''title'', PStr ''Tool guide''), (''type'', PStr ''tool'')]])
      \<and> map_of d ''citations'' =
          Some (PList [PDict [(''url'', PStr ''https://example.org/a''), (''relevance_score'', PFloat (9 / 10))]])"
proof -
  have h1: "load_partial_result demo_lib demo_job ''refined_draft'' world0 = (Inr PNone, world0)"
    by (simp add: load_partial_result_def world0_def)
  have h2: "\<not> py_truthy PNone" by simp
  have h3: "py_getitem (research_data_of (deep_research_results researched_vars)) ''citations'' = Inr (PList [])"
    by (simp add: research_data_of_def researched_vars_def vars0_def)
  have h4: "score_citations demo_lib demo_client world0 =
              (Inr (PList [PDict [(''url'', PStr ''https://docs.example.org/tool''),
                                  (''title'', PStr ''Tool guide''), (''type'', PStr ''tool'')]],
                    [PDict [(''url'', PStr ''https://example.org/a''), (''relevance_score'', PFloat (9 / 10))]]),
               outbound ''citation_scoring'' world0)"
    by (rule demo_scoring) simp
  have h5: "py_getitem (research_data_of (deep_research_results researched_vars)) ''content'' = Inr (PStr ''Findings.'')"
    by (simp add: research_data_of_def researched_vars_def vars0_def)
  have h6: "refine_reply demo_client =
              Inr \<lparr>msg_content = None, msg_refusal = None,
                   msg_parsed = Some [(''title'', PStr ''Plan''), (''steps'', PList []),
                                      (''resources'', PList [PStr ''from the model'']),
                                      (''metadata'', PNone)]\<rparr>"
    by (simp add: demo_client_def)
  have h7: "refused \<lparr>msg_content = None, msg_refusal = None,
                     msg_parsed = Some [(''title'', PStr ''Plan''), (''steps'', PList []),
                                        (''resources'', PList [PStr ''from the model'']),
                                        (''metadata'', PNone)]\<rparr>
            \<or> msg_parsed \<lparr>msg_content = None, msg_refusal = None,
                     msg_parsed = Some [(''title'', PStr ''Plan''), (''steps'', PList []),
                                        (''resources'', PList [PStr ''from the model'']),
                                        (''metadata'', PNone)]\<rparr> \<noteq> None"
    by simp
  from refine_overwrites_metadata [OF h1 h2 h3 h4 h5 h6 h7, of "get_use_case_config demo_args" "[]"]
  show ?thesis by (simp add: refused_def)
qed

text \<open>
  Claim C7. Take a run that enters the Stage 3 block with nothing cached, a research
  result with citations and content, and a successful sub-call (i), and let the reply
  of the structured call be flagged as refusal. Then Stage 3 returns, without raising,
  the printed placeholder of title Refusal and with no steps; the step record of
  refined_draft holds exactly that text; and the run goes on with the Stage 4 block,
  which receives the placeholder as the refined draft.
\<close>

theorem refusal_handling:
  assumes "load_partial_result lib jm ''refined_draft'' (logging (StepStart ''refined_draft'') w0) = (Inr c, w1)"
    and "\<not> py_truthy c"
    and "py_getitem (research_data_of (deep_research_results v)) ''citations'' = Inr cits"
    and "score_citations lib cl w1 = (Inr (official, other), w2)"
    and "py_getitem (research_data_of (deep_research_results v)) ''content'' = Inr rc"
    and "refine_reply cl = Inr m"
    and "refused m"
  shows "\<exists>d txt w3.
           d = [(''title'', PStr ''Refusal''), (''time_to_complete'', PStr ''0 minutes''),
                (''description'', PStr ''The model refused to comply.''), (''steps'', PList []),
                (''resources'', official), (''metadata'', PDict cfg), (''citations'', PList [])]
         \<and> txt = json_dumps_indent lib (PDict d)
         \<and> refine_use_case_with_reasoning lib cl cfg (deep_research_results v) content jm
              (logging (StepStart ''refined_draft'') w0) = (Inr (PStr txt), w3)
         \<and> files w3 (get_filepath jm ''refined_draft'')
              = Some (json_dumps_indent lib (PDict [(''content'', PStr txt)]))
         \<and> run_blocks lib cl cfg jm content (''refined_draft'' # ''final_use_case'' # rest) v w0
              = run_blocks lib cl cfg jm content (''final_use_case'' # rest)
                  (assign_result ''refined_draft'' (PStr txt) True v)
                  (logging (StepDone ''refined_draft'') w3)"
proof -
  let ?d = "[(''title'', PStr ''Refusal''), (''time_to_complete'', PStr ''0 minutes''),
             (''description'', PStr ''The model refused to comply.''), (''steps'', PList []),
             (''resources'', official), (''metadata'', PDict cfg), (''citations'', PList [])]"
  let ?txt = "json_dumps_indent lib (PDict ?d)"
  let ?w3 = "save_partial_result lib jm ''refined_draft'' ?txt (outbound ''refine'' w2)"
  have d: "refined_struct cfg official other m = Inr ?d"
    using assms(7) by (simp add: refined_struct_def)
  have stage: "refine_use_case_with_reasoning lib cl cfg (deep_research_results v) content jm
                 (logging (StepStart ''refined_draft'') w0) = (Inr (PStr ?txt), ?w3)"
    by (rule refine_fresh [OF assms(1-6) d])
  have cached: "files ?w3 (get_filepath jm ''refined_draft'')
                  = Some (json_dumps_indent lib (PDict [(''content'', PStr ?txt)]))"
    by (simp add: save_partial_result_def)
  have "run_stage lib cl cfg jm content ''refined_draft'' v (logging (StepStart ''refined_draft'') w0)
          = (Inr (PStr ?txt), ?w3)"
    using stage by (simp add: run_stage_def)
  from main_block_success [OF this]
  have "run_blocks lib cl cfg jm content (''refined_draft'' # ''final_use_case'' # rest) v w0
          = run_blocks lib cl cfg jm content (''final_use_case'' # rest)
              (assign_result ''refined_draft'' (PStr ?txt) True v)
              (logging (StepDone ''refined_draft'') ?w3)" .
  with stage cached show ?thesis by blast
qed

theorem refusal_handling_witness:
  "fst (refine_use_case_with_reasoning demo_lib refusing_client (get_use_case_config demo_args)
          (deep_research_results researched_vars) [] demo_job
          (logging (StepStart ''refined_draft'') world0)) = Inr (PStr ''{}'')"
proof -
  let ?w = "logging (StepStart ''refined_draft'') world0"
  have h1: "load_partial_result demo_lib demo_job ''refined_draft'' ?w = (Inr PNone, ?w)"
    by (simp add: load_partial_result_def logging_def world0_def)
  have h2: "\<not> py_truthy PNone" by simp
  have h3: "py_getitem (research_data_of (deep_research_results researched_vars)) ''citations'' = Inr (PList [])"
    by (simp add: research_data_of_def researched_vars_def vars0_def)
  have h4: "score_citations demo_lib refusing_client ?w =
              (Inr (PList [PDict [(''url'', PStr ''https://docs.example.org/tool''),
                                  (''title'', PStr ''Tool guide''), (''type'', PStr ''tool'')]],
                    [PDict [(''url'', PStr ''https://example.org/a''), (''relevance_score'', PFloat (9 / 10))]]),
               outbound ''citation_scoring'' ?w)"
    by (rule demo_scoring) (simp add: refusing_client_def)
  have h5: "py_getitem (research_data_of (deep_research_results researched_vars)) ''content'' = Inr (PStr ''Findings.'')"
    by (simp add: research_data_of_def researched_vars_def vars0_def)
  have h6: "refine_reply refusing_client =
              Inr \<lparr>msg_content = None, msg_refusal = Some ''I cannot help with that.'', msg_parsed = None\<rparr>"
    by (simp add: refusing_client_def)
  have h7: "refused \<lparr>msg_content = None, msg_refusal = Some ''I cannot help with that.'', msg_parsed = None\<rparr>"
    by (simp add: refused_def)
  from refusal_handling [OF h1 h2 h3 h4 h5 h6 h7, of "get_use_case_config demo_args" "[]" "[]"]
  show ?thesis by (auto simp: demo_lib_def)
qed

section \<open>Resumption: a stage that finds its step record\<close>

lemma identify_cached:
  assumes "load_partial_result lib jm ''research_questions'' w = (Inr (PStr s), w1)" and "s \<noteq> []"
  shows "identify_research_questions lib cl content jm w =
           (Inr (PList (map PStr (split_on NL s))), logging (Resuming ''research_questions'') w1)"
  using assms by (simp add: identify_research_questions_def Let_def)

lemma deep_research_cached:
  assumes "load_partial_result lib jm ''deep_research'' w = (Inr c, w1)" and "py_truthy c"
  shows "deep_research lib cl content qs jm w = (Inr c, logging (Resuming ''deep_research'') w1)"
  using assms by (simp add: deep_research_def)

lemma refine_cached:
  assumes "load_partial_result lib jm ''refined_draft'' w = (Inr c, w1)" and "py_truthy c"
  shows "refine_use_case_with_reasoning lib cl cfg raw content jm w = (Inr c, w1)"
  using assms by (simp add: refine_use_case_with_reasoning_def)

lemma finalize_cached:
  assumes "load_partial_result lib jm ''final_use_case'' w = (Inr c, w1)" and "py_truthy c"
  shows "finalize_use_case lib cl cfg refined jm w = (Inr c, w1)"
  using assms by (simp add: finalize_use_case_def)

lemma example_cached:
  assumes "load_partial_result lib jm ''example_solution'' w = (Inr c, w1)" and "py_truthy c"
  shows "generate_example_solution lib cl cfg polished raw jm w = (Inr c, w1)"
  using assms by (simp add: generate_example_solution_def)

lemma visual_cached:
  assumes "load_partial_result lib jm ''visual_suggestions'' w = (Inr c, w1)" and "py_truthy c"
  shows "suggest_visual_elements lib cl final ex jm w = (Inr c, w1)"
  using assms by (simp add: suggest_visual_elements_def)

text \<open>
  Claim C4, as stated, fails in two ways. A step record whose content is the empty
  string is a cache miss for \<^verbatim>\<open>if existing_content:\<close>: after a first run of Stage 6 whose
  reply was blank, the record exists with content \<^verbatim>\<open>""\<close>, and a second invocation makes
  an outbound call and returns the new reply. And Stage 1 does not return the cached
  content but the list of its lines.
\<close>

theorem cached_stage_counterexample:
  "fst (load_partial_result demo_lib demo_job ''visual_suggestions'' blank_cached_world) = Inr (PStr [])
   \<and> fst (suggest_visual_elements demo_lib demo_client PNone PNone demo_job blank_cached_world)
       = Inr (PStr ''A screenshot.'')
   \<and> calls (snd (suggest_visual_elements demo_lib demo_client PNone PNone demo_job blank_cached_world))
       = calls blank_cached_world @ [''visual_suggestions'']
   \<and> fst (load_partial_result demo_lib demo_job ''research_questions'' questions_cached_world)
       = Inr (PStr (''Which features matter?'' @ [NL] @ ''Which pitfalls are common?''))
   \<and> fst (identify_research_questions demo_lib demo_client [] demo_job questions_cached_world)
       = Inr (PList [PStr ''Which features matter?'', PStr ''Which pitfalls are common?''])"
  by code_simp

text \<open>
  Claim C4, amended. For each of the six stages, when the step record of the stage
  holds a non-empty content string, the stage returns without any outbound call and
  without writing a file; Stages 2 to 6 return the cached content unchanged, and
  Stage 1 returns the list of its lines.
\<close>

theorem cached_stage_makes_no_call:
  assumes "name \<in> set stage_names"
    and "load_partial_result lib jm name w = (Inr (PStr s), w1)"
    and "s \<noteq> []"
  shows "\<exists>w2. run_stage lib cl cfg jm content name v w =
                 (Inr (if name = ''research_questions'' then PList (map PStr (split_on NL s)) else PStr s), w2)
              \<and> calls w2 = calls w \<and> files w2 = files w"
proof -
  have frame: "files w1 = files w \<and> calls w1 = calls w"
    by (rule load_partial_result_frame [OF assms(2)])
  have t: "py_truthy (PStr s)" using assms(3) by simp
  from assms(1) have "name = ''research_questions'' \<or> name = ''deep_research'' \<or> name = ''refined_draft''
    \<or> name = ''final_use_case'' \<or> name = ''example_solution'' \<or> name = ''visual_suggestions''"
    by (simp add: stage_names_def)
  then show ?thesis
  proof (elim disjE)
    assume "name = ''research_questions''"
    with assms(2,3) frame show ?thesis
      by (simp add: run_stage_def identify_cached logging_def)
  next
    assume "name = ''deep_research''"
    with assms(2) t frame show ?thesis
      by (simp add: run_stage_def deep_research_cached logging_def)
  next
    assume "name = ''refined_draft''"
    with assms(2) t frame show ?thesis
      by (simp add: run_stage_def refine_cached)
  next
    assume "name = ''final_use_case''"
    with assms(2) t frame show ?thesis
      by (simp add: run_stage_def finalize_cached)
  next
    assume "name = ''example_solution''"
    with assms(2) t frame show ?thesis
      by (simp add: run_stage_def example_cached)
  next
    assume "name = ''visual_suggestions''"
    with assms(2) t frame show ?thesis
      by (simp add: run_stage_def visual_cached)
  qed
qed

lemma researched_world_file:
  "files researched_world (get_filepath demo_job ''deep_research'') = Some ''{}''"
  by code_simp

theorem cached_stage_makes_no_call_witness:
  "fst (run_stage demo_lib demo_client (get_use_case_config demo_args) demo_job []
          ''deep_research'' vars0 researched_world) = Inr (PStr ''{}'')
   \<and> calls (snd (run_stage demo_lib demo_client (get_use_case_config demo_args) demo_job []
          ''deep_research'' vars0 researched_world)) = calls researched_world"
proof -
  have h1: "''deep_research'' \<in> set stage_names"
    by (simp add: stage_names_def)
  have h2: "load_partial_result demo_lib demo_job ''deep_research'' researched_world
              = (Inr (PStr ''{}''), logging (ResumeFound ''deep_research'') researched_world)"
    by (simp add: load_partial_result_def researched_world_file demo_lib_def)
  have h3: "''{}'' \<noteq> []" by simp
  from cached_stage_makes_no_call [OF h1 h2 h3, of demo_client "get_use_case_config demo_args" "[]" vars0]
  show ?thesis by auto
qed

text \<open>
  Claim C8 fails on a resumed run. A fresh run of Stage 2 returns the research result
  as a dictionary with content and citations; a second invocation on the same job finds
  the step record and returns its content, the printed text of that dictionary, as a
  string. Stage 5 reads the research with \<^verbatim>\<open>raw_research.get\<close>, which a string does not
  have: the resumed run ends with AttributeError in the example-solution block, after
  the calls of Stages 1, 3 and 4.
\<close>

theorem resumed_research_is_a_string:
  "fst (deep_research demo_lib demo_client [] demo_questions demo_job world0)
     = Inr (PDict [(''content'', PStr ''Findings.''),
                   (''citations'', PList [PDict [(''url'', PStr ''https://example.org/docs''),
                                                 (''title'', PStr ''Example docs''),
                                                 (''snippet'', PNone), (''relevance_score'', PNone)]])])
   \<and> fst (deep_research demo_lib demo_client [] demo_questions demo_job researched_world)
     = Inr (PStr ''{}'')
   \<and> fst (generate_example_solution demo_lib demo_client (get_use_case_config demo_args)
             (PStr ''{}'') (PStr ''{}'') demo_job researched_world) = Inl AttributeError
   \<and> fst (main demo_lib demo_client demo_args demo_job [] researched_world) = Inl AttributeError
   \<and> calls (snd (main demo_lib demo_client demo_args demo_job [] researched_world))
     = calls researched_world @ [''identify_research_questions'', ''citation_scoring'', ''refine'', ''polish'']"
  by code_simp

text \<open>
  Whatever the string is, Stage 5 raises when it receives the research as a string and
  has no step record of its own: a string has no \<^verbatim>\<open>get\<close>.
\<close>

lemma example_solution_rejects_string:
  assumes "load_partial_result lib jm ''example_solution'' w = (Inr c, w1)" and "\<not> py_truthy c"
  shows "\<exists>e. generate_example_solution lib cl cfg polished (PStr s) jm w = (Inl e, w1)"
  using assms
  by (auto simp: generate_example_solution_def ebind_def split: sum.splits)

section \<open>Document assembler: grouping, ordering, failure\<close>

text \<open>The loop indices print in decimal.\<close>

lemma show_nat_examples:
  "show_nat 1 = ''1''" "show_nat 10 = ''10''" "show_nat 307 = ''307''"
  by code_simp+












lemma demo_resources_rendered:
  "convert_json_to_markdown (doc_lib (demo_doc demo_resources [])) (PStr ''final'') PNone PNone =
     ''# Plan'' @ [NL, NL] @ ''**Time to Complete:** 20 minutes'' @ [NL, NL] @
     ''## Description'' @ [NL] @ ''A plan.'' @ [NL, NL] @ ''## Steps'' @ [NL] @
     ''## Resources'' @ [NL] @
     ''### Tool Documentation'' @ [NL] @
     ''* [Tool guide](https://docs.example.org/tool)'' @ [NL] @
     ''* [Tool FAQ](https://docs.example.org/faq)'' @ [NL] @ [NL] @
     ''### Language Documentation'' @ [NL] @
     ''* [Language reference](https://docs.example.org/lang)'' @ [NL] @ [NL] @
     ''### Mode-specific Documentation'' @ [NL] @
     ''* [Inline chat](https://docs.example.org/mode)'' @ [NL] @ [NL]"
  by code_simp

text \<open>
  Claim C6 fails on the code. With the scores 0.3, 0.9, null and 0.7 the sort key
  \<^verbatim>\<open>float(x.get('relevance_score', 0))\<close> is \<^verbatim>\<open>float(None)\<close> for the third citation, a TypeError:
  the default 0 is used only when the key is absent. The exception leaves the body, and
  the whole document is the empty string. With the key absent instead of null, the
  order is the one the claim states: 0.9, 0.7, 0.3, and the citation without score last.
\<close>

theorem null_score_breaks_rendering:
  "sorted_citations demo_lib
     [scored_citation ''a'' (PFloat (3 / 10)), scored_citation ''b'' (PFloat (9 / 10)),
      scored_citation ''c'' PNone, scored_citation ''d'' (PFloat (7 / 10))] = Inl TypeError
   \<and> convert_json_to_markdown
        (doc_lib (demo_doc [] [scored_citation ''a'' (PFloat (3 / 10)), scored_citation ''b'' (PFloat (9 / 10)),
                               scored_citation ''c'' PNone, scored_citation ''d'' (PFloat (7 / 10))]))
        (PStr ''final'') PNone PNone = []
   \<and> sorted_citations demo_lib
        [scored_citation ''a'' (PFloat (3 / 10)), scored_citation ''b'' (PFloat (9 / 10)),
         unscored_citation ''c'', scored_citation ''d'' (PFloat (7 / 10))]
      = Inr [scored_citation ''b'' (PFloat (9 / 10)), scored_citation ''d'' (PFloat (7 / 10)),
             scored_citation ''a'' (PFloat (3 / 10)), unscored_citation ''c'']"
  by code_simp

text \<open>
  The same for every document: one citation whose score is present and null empties
  the document, whatever the other citations and sections are.
\<close>

lemma emap_fails:
  assumes "x \<in> set xs" and "f x = Inl e"
  shows "\<exists>e'. emap f xs = Inl e'"
  using assms by (induction xs) (auto simp: ebind_def split: sum.splits)

lemma null_score_fails_sort:
  assumes "c \<in> set cs" and "py_get c ''relevance_score'' (PInt 0) = Inr PNone"
  shows "\<exists>e. sorted_citations lib cs = Inl e"
proof -
  have "relevance_key lib c = Inl TypeError"
    using assms(2) by (simp add: relevance_key_def ebind_def)
  from emap_fails [of c cs "relevance_key lib" TypeError, OF assms(1) this]
  obtain e where "emap (relevance_key lib) cs = Inl e" ..
  then show ?thesis by (simp add: sorted_citations_def ebind_def)
qed

lemma null_score_empties_document:
  assumes "py_json_loads lib jc = Inr (PDict kvs)"
    and "map_of kvs ''citations'' = Some (PList cs)"
    and "c \<in> set cs" and "py_get c ''relevance_score'' (PInt 0) = Inr PNone"
  shows "convert_json_to_markdown lib jc ex vis = []"
proof -
  from null_score_fails_sort [OF assms(3,4)] obtain e where "sorted_citations lib cs = Inl e" ..
  moreover have "cs \<noteq> []" using assms(3) by auto
  ultimately have "render_citations lib (PDict kvs) = Inl e"
    using assms(2) by (simp add: render_citations_def when_truthy_def ebind_def)
  then have "\<exists>e'. convert_body lib jc ex vis = Inl e'"
    using assms(1) by (auto simp: convert_body_def ebind_def split: sum.splits)
  then show ?thesis by (auto simp: convert_json_to_markdown_def)
qed

text \<open>
  Claim C10. Whenever the body of the assembler raises, \<^verbatim>\<open>convert_json_to_markdown\<close>
  returns the empty string. In a run whose six blocks have completed, \<^verbatim>\<open>main\<close> then
  returns normally, the file use_case.md holds the empty string, and the log ends with
  the records of a finished run: the document was written, the run is complete (or,
  when a stage was replaced by its fallback, generated with partial results, naming
  those stages), and where the results are stored. No error is raised or logged.
\<close>

theorem rendering_failure_is_swallowed:
  "(convert_body lib jc ex vis = Inl e \<longrightarrow> convert_json_to_markdown lib jc ex vis = [])
   \<and> (run_blocks lib cl (get_use_case_config a) jm content stage_names vars0 w0 = (Inr v, w1)
        \<and> convert_body lib (final_use_case_json v) (example_solution_json v) (visual_suggestions v) = Inl e
      \<longrightarrow> (\<exists>w2. main lib cl a jm content w0 = (Inr (), w2)
              \<and> files w2 (path_join (job_dir jm) ''use_case.md'') = Some []
              \<and> log w2 = log w1 @
                   [GeneratingMarkdown, WroteMarkdown (path_join (job_dir jm) ''use_case.md''),
                    (if \<forall>sr\<in>set (step_results v). snd sr then Complete
                     else PartialResults (map fst (filter (\<lambda>sr. \<not> snd sr) (step_results v)))),
                    ResultsStored (job_dir jm)]))"
  by (auto simp: convert_json_to_markdown_def main_def Let_def write_markdown_file_def logging_def
        filter_empty_conv)


theorem rendering_failure_is_swallowed_witness:
  "fst (main demo_lib demo_client demo_args demo_job [] world0) = Inr ()
   \<and> files (snd (main demo_lib demo_client demo_args demo_job [] world0))
        (path_join (job_dir demo_job) ''use_case.md'') = Some []"
proof -
  let ?X = "run_blocks demo_lib demo_client (get_use_case_config demo_args) demo_job []
              stage_names vars0 world0"
  have "\<not> isl (fst ?X)"
    by code_simp
  then have h1: "?X = (Inr (projr (fst ?X)), snd ?X)"
    by (simp add: prod_eq_iff)
  have h2: "convert_body demo_lib (final_use_case_json (projr (fst ?X)))
              (example_solution_json (projr (fst ?X))) (visual_suggestions (projr (fst ?X))) = Inl KeyError"
    by code_simp
  from rendering_failure_is_swallowed [of demo_lib "PStr []" PNone PNone KeyError demo_client demo_args
         demo_job "[]" world0 "projr (fst ?X)" "snd ?X"] h1 h2
  obtain w2 where "main demo_lib demo_client demo_args demo_job [] world0 = (Inr (), w2)"
    and "files w2 (path_join (job_dir demo_job) ''use_case.md'') = Some []"
    by blast
  then show ?thesis by simp
qed

text \<open>The two failures the claim names: a text that is not JSON, and a citation without URL.\<close>

lemma invalid_json_raises:
  "json_loads lib s = None \<Longrightarrow> convert_body lib (PStr s) ex vis = Inl JSONDecodeError"
  by (simp add: convert_body_def py_json_loads_def ebind_def)

lemma citation_without_url_raises:
  "convert_body (doc_lib (demo_doc [] [PDict [(''title'', PStr ''No link'')]])) (PStr ''final'') PNone PNone
     = Inl KeyError"
  by code_simp

end
